theory Spec2Isabelle
  imports Complex_Main
begin

section \<open>Data model\<close>

text \<open>
  The library is Python. Its dictionaries with a fixed set of keys are records here, a key
  that may be absent (\<open>cost\<close>) is an \<open>option\<close> field, and the two exception classes the
  code raises are the constructors of \<open>error\<close>, each carrying its message. Text is a
  \<open>string\<close>, one \<open>char\<close> per code point (code points below 256). Prices and costs are
  Python floats; they are modelled as \<open>real\<close>, so sums and products are exact.
\<close>

datatype error = ValueError string | Exception string

text \<open>One entry of \<open>model_config.json\<close>; the JSON key \<open>type\<close> is the field \<open>mtype\<close>.\<close>

record model_info =
  vendor :: string
  vendor_model_id :: string
  mtype :: string
  price_per_input_tokens :: real
  price_per_output_tokens :: real

text \<open>
  \<open>model_config['models']\<close>: a dictionary in insertion order, so an association list
  whose order is the iteration order of \<open>.items()\<close>.
\<close>

type_synonym model_config = "(string \<times> model_info) list"

text \<open>The dictionary a vendor client and the router return for one call.\<close>

record call_result =
  response :: string
  model_used :: string
  finish_reason :: string
  cost :: "real option"

text \<open>The dictionary \<open>ai_call_checked\<close> returns: the same keys plus \<open>prompt\<close> and \<open>attempts\<close>.\<close>

record checked_result = call_result +
  prompt :: string
  attempts :: nat

section \<open>Vendor clients\<close>

text \<open>
  \<open>_calculate_cost\<close> and \<open>_get_model_info\<close> are written out once per client in the
  source, with the same body up to the vendor's name.
\<close>

definition quoted :: "string \<Rightarrow> string" where
  "quoted s = [CHR 0x27] @ s @ [CHR 0x27]"

definition calculate_cost :: "model_info \<Rightarrow> int \<Rightarrow> int \<Rightarrow> real" where
  "calculate_cost info input_tokens output_tokens =
     (let input_cost = of_int input_tokens * price_per_input_tokens info;
          output_cost = of_int output_tokens * price_per_output_tokens info;
          total = input_cost + output_cost
      in total)"

definition get_model_info :: "string \<Rightarrow> string \<Rightarrow> model_config \<Rightarrow> string \<Rightarrow> error + model_info" where
  "get_model_info vndr article cfg model_name =
     (case map_of cfg model_name of
        None \<Rightarrow> Inl (ValueError (''Model '' @ quoted model_name @ '' not found in configuration''))
      | Some info \<Rightarrow>
          if vendor info \<noteq> vndr
          then Inl (ValueError (''Model '' @ quoted model_name @ '' is not '' @ article @ '' model''))
          else Inr info)"

subsection \<open>Gemini\<close>

definition estimate_tokens :: "string \<Rightarrow> int" where
  "estimate_tokens txt = int (length txt) div 4"

text \<open>
  The provider's reply: \<open>response.text\<close>, which is all the client reads, and the usage
  report the provider may send with it (\<open>response.usage_metadata\<close>, with the token counts
  of the prompt and of the answer), which the client never reads.
\<close>

record usage_metadata =
  prompt_token_count :: int
  candidates_token_count :: int

record generation =
  response_text :: string
  usage_metadata :: "usage_metadata option"

text \<open>
  The provider: \<open>GenerativeModel(model_name, generation_config).generate_content(full_prompt)\<close>
  followed by \<open>response.text\<close>. It receives the vendor model id, the temperature, the
  optional \<open>max_output_tokens\<close> and the full prompt, and gives the reply or raises
  (\<open>Inl\<close> of the exception's message).
\<close>

type_synonym genai = "string \<Rightarrow> real \<Rightarrow> int option \<Rightarrow> string \<Rightarrow> string + generation"

text \<open>\<open>if max_tokens:\<close> holds of a number other than 0; \<open>None\<close> and 0 are false.\<close>

definition truthy_int :: "int option \<Rightarrow> bool" where
  "truthy_int n = (case n of None \<Rightarrow> False | Some k \<Rightarrow> k \<noteq> 0)"

definition gemini_full_prompt :: "string \<Rightarrow> string option \<Rightarrow> string" where
  "gemini_full_prompt prmpt system_message =
     (case system_message of
        None \<Rightarrow> prmpt
      | Some sm \<Rightarrow> if sm \<noteq> [] then ''[System: '' @ sm @ '']'' @ [CHR 0x0A, CHR 0x0A] @ prmpt else prmpt)"

definition gemini_call_api ::
  "genai \<Rightarrow> model_config \<Rightarrow> string \<Rightarrow> string \<Rightarrow> string option \<Rightarrow> real \<Rightarrow> int option \<Rightarrow> bool
     \<Rightarrow> error + call_result" where
  "gemini_call_api provider cfg model_name prmpt system_message temperature max_tokens calc_cost =
     (case get_model_info ''Gemini'' ''a Gemini'' cfg model_name of
        Inl e \<Rightarrow> Inl e
      | Inr info \<Rightarrow>
          let full_prompt = gemini_full_prompt prmpt system_message;
              max_output_tokens = (if truthy_int max_tokens then max_tokens else None)
          in (case provider (vendor_model_id info) temperature max_output_tokens full_prompt of
                Inl msg \<Rightarrow> Inl (Exception (''Gemini API call failed: '' @ msg))
              | Inr reply \<Rightarrow>
                  let result = \<lparr>response = response_text reply, model_used = vendor_model_id info,
                                finish_reason = ''stop'', cost = None\<rparr>
                  in if calc_cost
                     then Inr (result\<lparr>cost := Some (calculate_cost info
                                 (estimate_tokens full_prompt)
                                 (estimate_tokens (response_text reply)))\<rparr>)
                     else Inr result))"

subsection \<open>OpenAI\<close>

text \<open>
  What the client reads of the provider's reply: \<open>choices[0].message.content\<close>,
  \<open>choices[0].finish_reason\<close>, and \<open>usage.prompt_tokens\<close> and
  \<open>usage.completion_tokens\<close>. The usage report may be missing (\<open>usage\<close> is \<open>None\<close>);
  reading \<open>prompt_tokens\<close> of it then raises an \<open>AttributeError\<close> inside the \<open>try\<close>.
\<close>

record usage =
  prompt_tokens :: int
  completion_tokens :: int

record completion =
  content :: string
  choice_finish_reason :: string
  usage :: "usage option"

text \<open>
  The provider: \<open>client.chat.completions.create(model, messages, temperature, max_tokens)\<close>,
  the messages as (role, content) pairs; it gives the reply or raises.
\<close>

type_synonym openai = "string \<Rightarrow> (string \<times> string) list \<Rightarrow> real \<Rightarrow> int option \<Rightarrow> string + completion"

definition openai_messages :: "string \<Rightarrow> string option \<Rightarrow> (string \<times> string) list" where
  "openai_messages prmpt system_message =
     (case system_message of
        None \<Rightarrow> [(''user'', prmpt)]
      | Some sm \<Rightarrow> if sm \<noteq> [] then [(''system'', sm), (''user'', prmpt)] else [(''user'', prmpt)])"

definition openai_call_api ::
  "openai \<Rightarrow> model_config \<Rightarrow> string \<Rightarrow> string \<Rightarrow> string option \<Rightarrow> real \<Rightarrow> int option \<Rightarrow> bool
     \<Rightarrow> error + call_result" where
  "openai_call_api provider cfg model_name prmpt system_message temperature max_tokens calc_cost =
     (case get_model_info ''OpenAI'' ''an OpenAI'' cfg model_name of
        Inl e \<Rightarrow> Inl e
      | Inr info \<Rightarrow>
          let messages = openai_messages prmpt system_message;
              max_tokens' = (if truthy_int max_tokens then max_tokens else None)
          in (case provider (vendor_model_id info) messages temperature max_tokens' of
                Inl msg \<Rightarrow> Inl (Exception (''OpenAI API call failed: '' @ msg))
              | Inr reply \<Rightarrow>
                  let result = \<lparr>response = content reply, model_used = vendor_model_id info,
                                finish_reason = choice_finish_reason reply, cost = None\<rparr>
                  in if calc_cost
                     then (case usage reply of
                             None \<Rightarrow>
                               Inl (Exception (''OpenAI API call failed: '' @ quoted ''NoneType''
                                      @ '' object has no attribute '' @ quoted ''prompt_tokens''))
                           | Some u \<Rightarrow>
                               Inr (result\<lparr>cost := Some (calculate_cost info
                                      (prompt_tokens u) (completion_tokens u))\<rparr>))
                     else Inr result))"

section \<open>The checked call\<close>

subsection \<open>The router as the environment\<close>

text \<open>
  \<open>ai_call_checked\<close> reaches the providers only through
  \<open>router.communicate_with_ai(model_name, prompt, check_for_price)\<close>, which returns a result
  dictionary or raises. The router is a parameter: its answer may depend on every call made
  before and on the request. Each call is appended to a history, which is not a variable of
  the source; it records what the function did. \<open>total_cost\<close> is the source's variable.

  A returned dictionary has the keys \<open>response\<close> (a text), \<open>model_used\<close> and
  \<open>finish_reason\<close>, as the clients build it; only \<open>cost\<close> may be absent. Building the
  router (reading the configuration file and the API keys) happens before the function does
  anything else and is outside the model: the loaded registry \<open>cfg\<close> and the router are
  parameters. Logging has no effect on the result and is left out.
\<close>

record call =
  req_model :: string
  req_prompt :: string
  outcome :: "error + call_result"

type_synonym router = "call list \<Rightarrow> string \<Rightarrow> string \<Rightarrow> bool \<Rightarrow> error + call_result"

record state =
  history :: "call list"
  total_cost :: real

definition communicate_with_ai ::
  "router \<Rightarrow> string \<Rightarrow> string \<Rightarrow> bool \<Rightarrow> state \<Rightarrow> (error + call_result) \<times> state" where
  "communicate_with_ai R model_name prmpt check_for_price st =
     (let out = R (history st) model_name prmpt check_for_price
      in (out, st\<lparr>history := history st @
                      [\<lparr>req_model = model_name, req_prompt = prmpt, outcome = out\<rparr>]\<rparr>))"

text \<open>\<open>if check_for_price and 'cost' in result: total_cost += result['cost']\<close>\<close>

definition track_cost :: "bool \<Rightarrow> call_result \<Rightarrow> state \<Rightarrow> state" where
  "track_cost check_for_price result st =
     (case cost result of
        None \<Rightarrow> st
      | Some c \<Rightarrow> if check_for_price then st\<lparr>total_cost := total_cost st + c\<rparr> else st)"

subsection \<open>Text helpers\<close>

text \<open>
  \<open>str.strip()\<close> removes leading and trailing whitespace; these are the code points below
  256 for which \<open>str.isspace\<close> holds.
\<close>

definition isspace :: "char \<Rightarrow> bool" where
  "isspace c = (c \<in> set [CHR 0x09, CHR 0x0A, CHR 0x0B, CHR 0x0C, CHR 0x0D, CHR 0x1C, CHR 0x1D,
                           CHR 0x1E, CHR 0x1F, CHR 0x20, CHR 0x85, CHR 0xA0])"

definition strip :: "string \<Rightarrow> string" where
  "strip s = rev (dropWhile isspace (rev (dropWhile isspace s)))"

definition sentinel :: string where
  "sentinel = ''%FALSE%''"

definition validation_prompt :: "string \<Rightarrow> string list \<Rightarrow> string" where
  "validation_prompt prmpt responses =
     ''You are a validation expert. I will give you an original prompt and three AI responses. ''
     @ [CHR 0x0A] @ ''Your task is to check if all three responses are identical and valid.''
     @ [CHR 0x0A, CHR 0x0A] @ ''Original prompt: '' @ prmpt
     @ [CHR 0x0A, CHR 0x0A] @ ''Response 1: '' @ responses ! 0
     @ [CHR 0x0A] @ ''Response 2: '' @ responses ! 1
     @ [CHR 0x0A] @ ''Response 3: '' @ responses ! 2
     @ [CHR 0x0A, CHR 0x0A]
     @ ''If all three responses are identical and valid, respond with the correct answer only.''
     @ [CHR 0x0A] @ ''If they are not identical or invalid, respond with exactly: %FALSE%''
     @ [CHR 0x0A, CHR 0x0A] @ ''Your response:''"

subsection \<open>Resolving the two models\<close>

definition allowed_vendors :: "string list" where
  "allowed_vendors = [''OpenAI'', ''Anthropic'', ''Gemini'']"

text \<open>
  The \<open>for model_name, model_info in ...items()\<close> loop, with the two variables
  \<open>high_model\<close> and \<open>budget_model\<close> as the accumulator (both \<open>None\<close> at the start).
\<close>

fun find_models ::
  "model_config \<Rightarrow> string \<Rightarrow> string option \<times> string option \<Rightarrow> string option \<times> string option" where
  "find_models [] vndr (high_model, budget_model) = (high_model, budget_model)"
| "find_models ((model_name, info) # rest) vndr (high_model, budget_model) =
     (if vendor info = vndr then
        (if mtype info = ''high'' then find_models rest vndr (Some model_name, budget_model)
         else if mtype info = ''budget'' then find_models rest vndr (high_model, Some model_name)
         else find_models rest vndr (high_model, budget_model))
      else find_models rest vndr (high_model, budget_model))"

subsection \<open>One attempt\<close>

text \<open>The \<open>for i in range(3)\<close> loop; a raising call leaves it with the exception.\<close>

fun sample_loop ::
  "router \<Rightarrow> string \<Rightarrow> string \<Rightarrow> bool \<Rightarrow> nat \<Rightarrow> string list \<Rightarrow> state
     \<Rightarrow> (error + string list) \<times> state" where
  "sample_loop R high_model prmpt check_for_price 0 responses st = (Inr responses, st)"
| "sample_loop R high_model prmpt check_for_price (Suc n) responses st =
     (case communicate_with_ai R high_model prmpt check_for_price st of
        (Inl e, st') \<Rightarrow> (Inl e, st')
      | (Inr result, st') \<Rightarrow>
          sample_loop R high_model prmpt check_for_price n (responses @ [response result])
            (track_cost check_for_price result st'))"

text \<open>
  How the body of the \<open>try\<close> ends: \<open>Validated\<close> is the \<open>return\<close> (with the text to
  return), \<open>Rejected\<close> the \<open>continue\<close> after \<open>%FALSE%\<close>, \<open>Disagreed\<close> the \<open>continue\<close>
  after differing samples, \<open>Failed\<close> an exception reaching the \<open>except\<close> clause.
\<close>

datatype attempt_outcome = Validated string | Rejected | Disagreed | Failed error

definition attempt_body ::
  "router \<Rightarrow> string \<Rightarrow> string \<Rightarrow> string \<Rightarrow> bool \<Rightarrow> state \<Rightarrow> attempt_outcome \<times> state" where
  "attempt_body R high_model budget_model prmpt check_for_price st =
     (case sample_loop R high_model prmpt check_for_price 3 [] st of
        (Inl e, st1) \<Rightarrow> (Failed e, st1)
      | (Inr responses, st1) \<Rightarrow>
          if card (set responses) = 1 then
            (case communicate_with_ai R budget_model (validation_prompt prmpt responses)
                    check_for_price st1 of
               (Inl e, st2) \<Rightarrow> (Failed e, st2)
             | (Inr validation_result, st2) \<Rightarrow>
                 let validation_response = strip (response validation_result);
                     st3 = track_cost check_for_price validation_result st2
                 in if validation_response = sentinel then (Rejected, st3)
                    else (Validated validation_response, st3))
          else (Disagreed, st1))"

subsection \<open>The retry loop\<close>

datatype loop_exit = Return checked_result | Raise error | Exhausted

definition validated_result ::
  "string \<Rightarrow> string \<Rightarrow> string \<Rightarrow> bool \<Rightarrow> string \<Rightarrow> nat \<Rightarrow> state \<Rightarrow> checked_result" where
  "validated_result high_model budget_model prmpt check_for_price validation_response attempt st =
     \<lparr>response = validation_response,
      model_used = high_model @ '' (validated by '' @ budget_model @ '')'',
      finish_reason = ''validated'',
      cost = (if check_for_price then Some (total_cost st) else None),
      prompt = prmpt,
      attempts = attempt + 1\<rparr>"

text \<open>\<open>for attempt in range(5)\<close>, over the list of the attempt indices still to run.\<close>

fun attempts_loop ::
  "router \<Rightarrow> string \<Rightarrow> string \<Rightarrow> string \<Rightarrow> bool \<Rightarrow> nat list \<Rightarrow> state \<Rightarrow> loop_exit \<times> state" where
  "attempts_loop R high_model budget_model prmpt check_for_price [] st = (Exhausted, st)"
| "attempts_loop R high_model budget_model prmpt check_for_price (attempt # rest) st =
     (case attempt_body R high_model budget_model prmpt check_for_price st of
        (Validated validation_response, st') \<Rightarrow>
          (Return (validated_result high_model budget_model prmpt check_for_price
                     validation_response attempt st'), st')
      | (Rejected, st') \<Rightarrow> attempts_loop R high_model budget_model prmpt check_for_price rest st'
      | (Disagreed, st') \<Rightarrow> attempts_loop R high_model budget_model prmpt check_for_price rest st'
      | (Failed e, st') \<Rightarrow>
          if attempt = 4 then (Raise e, st')
          else attempts_loop R high_model budget_model prmpt check_for_price rest st')"

definition failed_result :: "string \<Rightarrow> string \<Rightarrow> string \<Rightarrow> bool \<Rightarrow> state \<Rightarrow> checked_result" where
  "failed_result vndr high_model prmpt check_for_price st =
     \<lparr>response = ''ERROR: Failed to get validated response after 5 attempts for vendor: '' @ vndr,
      model_used = high_model @ '' (validation failed)'',
      finish_reason = ''validation_failed'',
      cost = (if check_for_price then Some (total_cost st) else None),
      prompt = prmpt,
      attempts = 5\<rparr>"

definition initial_state :: state where
  "initial_state = \<lparr>history = [], total_cost = 0\<rparr>"

text \<open>\<open>if not high_model\<close>: true of \<open>None\<close> and of the empty name.\<close>

definition no_model :: "string option \<Rightarrow> bool" where
  "no_model m = (case m of None \<Rightarrow> True | Some name \<Rightarrow> name = [])"

definition not_allowed_msg :: "string \<Rightarrow> string" where
  "not_allowed_msg vndr =
     ''Vendor '' @ quoted vndr @ '' not allowed. Allowed vendors: ''
     @ ''['' @ quoted ''OpenAI'' @ '', '' @ quoted ''Anthropic'' @ '', '' @ quoted ''Gemini'' @ '']''"

definition no_high_msg :: "string \<Rightarrow> string" where
  "no_high_msg vndr =
     ''No high model found for vendor: '' @ vndr
     @ ''. High models are required for response generation.''"

definition no_budget_msg :: "string \<Rightarrow> string" where
  "no_budget_msg vndr =
     ''No budget model found for vendor: '' @ vndr
     @ ''. Budget models are required for response validation.''"

text \<open>
  What follows the loop: a \<open>return\<close> or a re-raised exception inside it ends the
  function; when the loop runs out, the \<open>validation_failed\<close> result is built.
\<close>

definition finish_loop ::
  "string \<Rightarrow> string \<Rightarrow> string \<Rightarrow> bool \<Rightarrow> loop_exit \<times> state \<Rightarrow> (error + checked_result) \<times> state" where
  "finish_loop vndr high_model prmpt check_for_price ex =
     (case ex of
        (Return result, st) \<Rightarrow> (Inr result, st)
      | (Raise e, st) \<Rightarrow> (Inl e, st)
      | (Exhausted, st) \<Rightarrow> (Inr (failed_result vndr high_model prmpt check_for_price st), st))"

text \<open>
  \<open>ai_call_checked_run\<close> is the function with the final state beside its result, so that
  the calls it made can be spoken of; \<open>ai_call_checked\<close> is what the caller sees.
\<close>

definition ai_call_checked_run ::
  "model_config \<Rightarrow> router \<Rightarrow> string \<Rightarrow> string \<Rightarrow> bool \<Rightarrow> (error + checked_result) \<times> state" where
  "ai_call_checked_run cfg R vndr prmpt check_for_price =
     (if vndr \<notin> set allowed_vendors then (Inl (ValueError (not_allowed_msg vndr)), initial_state)
      else
        (case find_models cfg vndr (None, None) of
           (high_model, budget_model) \<Rightarrow>
             if no_model high_model then (Inl (ValueError (no_high_msg vndr)), initial_state)
             else if no_model budget_model then (Inl (ValueError (no_budget_msg vndr)), initial_state)
             else
               finish_loop vndr (the high_model) prmpt check_for_price
                 (attempts_loop R (the high_model) (the budget_model) prmpt check_for_price
                    [0..<5] initial_state)))"

definition ai_call_checked ::
  "model_config \<Rightarrow> router \<Rightarrow> string \<Rightarrow> string \<Rightarrow> bool \<Rightarrow> error + checked_result" where
  "ai_call_checked cfg R vndr prmpt check_for_price =
     fst (ai_call_checked_run cfg R vndr prmpt check_for_price)"

section \<open>Notions the properties are stated with\<close>

text \<open>
  The state in which attempt number \<open>k\<close> (counted from 0) starts, when no earlier attempt
  ended the function: each earlier attempt leaves its state to the next.
\<close>

fun state_before :: "router \<Rightarrow> string \<Rightarrow> string \<Rightarrow> string \<Rightarrow> bool \<Rightarrow> nat \<Rightarrow> state" where
  "state_before R high_model budget_model prmpt check_for_price 0 = initial_state"
| "state_before R high_model budget_model prmpt check_for_price (Suc k) =
     snd (attempt_body R high_model budget_model prmpt check_for_price
            (state_before R high_model budget_model prmpt check_for_price k))"

definition outcome_of :: "router \<Rightarrow> string \<Rightarrow> string \<Rightarrow> string \<Rightarrow> bool \<Rightarrow> nat \<Rightarrow> attempt_outcome" where
  "outcome_of R high_model budget_model prmpt check_for_price k =
     fst (attempt_body R high_model budget_model prmpt check_for_price
            (state_before R high_model budget_model prmpt check_for_price k))"

fun is_validated :: "attempt_outcome \<Rightarrow> bool" where
  "is_validated (Validated v) = True"
| "is_validated _ = False"


text \<open>What one call adds to the total: its cost, or nothing when it has none.\<close>

definition contribution :: "call \<Rightarrow> real" where
  "contribution c =
     (case outcome c of
        Inl e \<Rightarrow> 0
      | Inr result \<Rightarrow> (case cost result of None \<Rightarrow> 0 | Some x \<Rightarrow> x))"

text \<open>
  The cost in the specification's words: the token counts are those of the provider's usage
  report when there is one, and otherwise the number of characters of the input and of the
  output text divided by 4, rounded down; the cost is the counts times the two prices.
\<close>

definition spec_token_counts :: "(int \<times> int) option \<Rightarrow> string \<Rightarrow> string \<Rightarrow> int \<times> int" where
  "spec_token_counts reported input_text output_text =
     (case reported of
        Some counts \<Rightarrow> counts
      | None \<Rightarrow> (int (length input_text) div 4, int (length output_text) div 4))"

definition spec_cost :: "real \<Rightarrow> real \<Rightarrow> (int \<times> int) option \<Rightarrow> string \<Rightarrow> string \<Rightarrow> real" where
  "spec_cost price_in price_out reported input_text output_text =
     of_int (fst (spec_token_counts reported input_text output_text)) * price_in
     + of_int (snd (spec_token_counts reported input_text output_text)) * price_out"

text \<open>
  The lookup in the specification's words: the first model of the registry with the given
  vendor and role. \<open>last_model_with\<close> is the same lookup from the other end.
\<close>

definition first_model_with :: "model_config \<Rightarrow> string \<Rightarrow> string \<Rightarrow> string option" where
  "first_model_with cfg vndr role =
     map_option fst (find (\<lambda>(name, info). vendor info = vndr \<and> mtype info = role) cfg)"

definition last_model_with :: "model_config \<Rightarrow> string \<Rightarrow> string \<Rightarrow> string option" where
  "last_model_with cfg vndr role = first_model_with (rev cfg) vndr role"

section \<open>Concrete configurations, providers and routers\<close>

text \<open>A registry with a high and a budget model for Gemini, and only a high model for OpenAI.\<close>

definition demo_config :: model_config where
  "demo_config =
     [(''gemini25pro'', \<lparr>vendor = ''Gemini'', vendor_model_id = ''gemini-2.5-pro'', mtype = ''high'',
         price_per_input_tokens = 1 / 1000, price_per_output_tokens = 2 / 1000\<rparr>),
      (''gemini25flash'', \<lparr>vendor = ''Gemini'', vendor_model_id = ''gemini-2.5-flash'',
         mtype = ''budget'',
         price_per_input_tokens = 1 / 10000, price_per_output_tokens = 2 / 10000\<rparr>),
      (''gpt4'', \<lparr>vendor = ''OpenAI'', vendor_model_id = ''gpt-4'', mtype = ''high'',
         price_per_input_tokens = 3 / 1000, price_per_output_tokens = 6 / 1000\<rparr>)]"

text \<open>A registry with two high models for Gemini.\<close>

definition two_high_config :: model_config where
  "two_high_config =
     [(''gemini15pro'', \<lparr>vendor = ''Gemini'', vendor_model_id = ''gemini-1.5-pro'', mtype = ''high'',
         price_per_input_tokens = 1 / 1000, price_per_output_tokens = 2 / 1000\<rparr>),
      (''gemini25pro'', \<lparr>vendor = ''Gemini'', vendor_model_id = ''gemini-2.5-pro'', mtype = ''high'',
         price_per_input_tokens = 1 / 1000, price_per_output_tokens = 2 / 1000\<rparr>),
      (''gemini25flash'', \<lparr>vendor = ''Gemini'', vendor_model_id = ''gemini-2.5-flash'',
         mtype = ''budget'',
         price_per_input_tokens = 1 / 10000, price_per_output_tokens = 2 / 10000\<rparr>)]"

text \<open>A Gemini provider that sends a usage report (8 and 6 tokens) with its answer.\<close>

definition paris_genai :: genai where
  "paris_genai model_id temperature max_output_tokens full_prompt =
     Inr \<lparr>response_text = ''Paris is the capital'',
          usage_metadata = Some \<lparr>prompt_token_count = 8, candidates_token_count = 6\<rparr>\<rparr>"

definition paris_openai :: openai where
  "paris_openai model_id messages temperature max_tokens =
     Inr \<lparr>content = ''Paris'', choice_finish_reason = ''length'',
          usage = Some \<lparr>prompt_tokens = 10, completion_tokens = 3\<rparr>\<rparr>"

text \<open>An OpenAI provider whose reply has no usage report.\<close>

definition unmetered_openai :: openai where
  "unmetered_openai model_id messages temperature max_tokens =
     Inr \<lparr>content = ''Paris'', choice_finish_reason = ''stop'', usage = None\<rparr>"

definition france :: string where
  "france = ''What is the capital of France?''"

text \<open>
  A router that answers every call with the given text for the budget model and with
  \<open>Paris\<close> for any other model, at a cost of 1/100 when the cost is asked for.
\<close>

definition verdict_router :: "string \<Rightarrow> router" where
  "verdict_router verdict h model_name prmpt check_for_price =
     Inr \<lparr>response = (if model_name = ''gemini25flash'' then verdict else ''Paris''),
          model_used = model_name, finish_reason = ''stop'',
          cost = (if check_for_price then Some (1 / 100) else None)\<rparr>"




text \<open>A router whose first call raises and whose later calls answer \<open>Paris\<close>.\<close>

definition flaky_router :: router where
  "flaky_router h model_name prmpt check_for_price =
     (if h = [] then Inl (Exception ''API call failed'')
      else verdict_router ''Paris'' h model_name prmpt check_for_price)"

section \<open>The loop, attempt by attempt\<close>

lemma card_three: "card (set [a, b, c]) = 1 \<longleftrightarrow> a = b \<and> b = c"
  by (auto simp: card_insert_if)

lemma strip_sentinel: "strip sentinel = sentinel"
  by (simp add: strip_def sentinel_def isspace_def)

lemma state_before_5:
  "state_before R hm bm p cfp 5 = snd (attempt_body R hm bm p cfp (state_before R hm bm p cfp 4))"
proof -
  have "(5::nat) = Suc 4" by simp
  then show ?thesis by (simp only: state_before.simps)
qed

lemma all_from:
  "(\<forall>j. n \<le> j \<and> j < k \<longrightarrow> P j) \<longleftrightarrow> (n < k \<longrightarrow> P n) \<and> (\<forall>j. Suc n \<le> j \<and> j < k \<longrightarrow> P j)"
  by (metis Suc_leI Suc_le_lessD le_eq_less_or_eq order_less_le_trans)

lemma attempt_at:
  "attempt_body R hm bm p cfp (state_before R hm bm p cfp k) =
     (outcome_of R hm bm p cfp k, state_before R hm bm p cfp (Suc k))"
  by (simp add: outcome_of_def)

lemma loop_step:
  assumes "k < 5"
  shows "attempts_loop R hm bm p cfp [k..<5] (state_before R hm bm p cfp k) =
     (case outcome_of R hm bm p cfp k of
        Validated v \<Rightarrow> (Return (validated_result hm bm p cfp v k (state_before R hm bm p cfp (Suc k))),
                        state_before R hm bm p cfp (Suc k))
      | Failed e \<Rightarrow> if k = 4 then (Raise e, state_before R hm bm p cfp (Suc k))
                    else attempts_loop R hm bm p cfp [Suc k..<5] (state_before R hm bm p cfp (Suc k))
      | _ \<Rightarrow> attempts_loop R hm bm p cfp [Suc k..<5] (state_before R hm bm p cfp (Suc k)))"
proof -
  from assms have u: "[k..<5] = k # [Suc k..<5]" by (simp add: upt_conv_Cons)
  show ?thesis
    unfolding u by (auto simp add: outcome_of_def state_before_5 split: prod.splits attempt_outcome.splits)
qed

lemma loop_skip:
  assumes "i \<le> k" "k < 5" "\<forall>j. i \<le> j \<and> j < k \<longrightarrow> \<not> is_validated (outcome_of R hm bm p cfp j)"
  shows "attempts_loop R hm bm p cfp [i..<5] (state_before R hm bm p cfp i) =
         attempts_loop R hm bm p cfp [k..<5] (state_before R hm bm p cfp k)"
  using assms
proof (induction k rule: dec_induct)
  case base
  then show ?case by simp
next
  case (step n)
  then have a: "attempts_loop R hm bm p cfp [i..<5] (state_before R hm bm p cfp i) =
         attempts_loop R hm bm p cfp [n..<5] (state_before R hm bm p cfp n)" by simp
  from step have nv: "\<not> is_validated (outcome_of R hm bm p cfp n)" and n4: "n < 4" by auto
  from n4 have "n < 5" by simp
  from loop_step[OF this, of R hm bm p cfp] nv n4
  have "attempts_loop R hm bm p cfp [n..<5] (state_before R hm bm p cfp n) =
        attempts_loop R hm bm p cfp [Suc n..<5] (state_before R hm bm p cfp (Suc n))"
    by (cases "outcome_of R hm bm p cfp n") auto
  with a show ?case by simp
qed

lemma loop_next:
  assumes "n < 5" "\<not> is_validated (outcome_of R hm bm p cfp n)"
    "n = 4 \<longrightarrow> (\<forall>e. outcome_of R hm bm p cfp n \<noteq> Failed e)"
  shows "attempts_loop R hm bm p cfp [n..<5] (state_before R hm bm p cfp n) =
      attempts_loop R hm bm p cfp [Suc n..<5] (state_before R hm bm p cfp (Suc n))"
  using loop_step[OF assms(1), of R hm bm p cfp] assms(2,3)
  by (cases "outcome_of R hm bm p cfp n") (auto simp del: state_before.simps)

lemma loop_Return:
  assumes "i \<le> 5"
    and "attempts_loop R hm bm p cfp [i..<5] (state_before R hm bm p cfp i) = (Return r, st')"
  shows "\<exists>k v. i \<le> k \<and> k < 5 \<and> outcome_of R hm bm p cfp k = Validated v \<and>
            (\<forall>j. i \<le> j \<and> j < k \<longrightarrow> \<not> is_validated (outcome_of R hm bm p cfp j)) \<and>
            st' = state_before R hm bm p cfp (Suc k) \<and>
            r = validated_result hm bm p cfp v k st'"
  using assms
proof (induction i rule: inc_induct)
  case base
  then show ?case by simp
next
  case (step n)
  then have n5: "n < 5" by simp
  note ls = loop_step[OF n5, of R hm bm p cfp]
  show ?case
  proof (cases "is_validated (outcome_of R hm bm p cfp n)")
    case True
    then obtain v where v: "outcome_of R hm bm p cfp n = Validated v"
      by (cases "outcome_of R hm bm p cfp n") auto
    with ls step.prems have "st' = state_before R hm bm p cfp (Suc n)"
      "r = validated_result hm bm p cfp v n st'"
      by (auto simp del: state_before.simps)
    with v n5 have "n \<le> n \<and> n < 5 \<and> outcome_of R hm bm p cfp n = Validated v \<and>
            (\<forall>j. n \<le> j \<and> j < n \<longrightarrow> \<not> is_validated (outcome_of R hm bm p cfp j)) \<and>
            st' = state_before R hm bm p cfp (Suc n) \<and>
            r = validated_result hm bm p cfp v n st'" by auto
    then show ?thesis by blast
  next
    case False
    have nf: "n = 4 \<longrightarrow> (\<forall>e. outcome_of R hm bm p cfp n \<noteq> Failed e)"
    proof (intro impI allI notI)
      fix e assume "n = 4" "outcome_of R hm bm p cfp n = Failed e"
      with ls step.prems show False by (auto simp del: state_before.simps)
    qed
    from loop_next[OF n5 False nf] step.prems
    have "attempts_loop R hm bm p cfp [Suc n..<5] (state_before R hm bm p cfp (Suc n)) = (Return r, st')"
      by simp
    from step.IH[OF this] obtain k v where kv: "Suc n \<le> k" "k < 5" "outcome_of R hm bm p cfp k = Validated v"
      "\<forall>j. Suc n \<le> j \<and> j < k \<longrightarrow> \<not> is_validated (outcome_of R hm bm p cfp j)"
      "st' = state_before R hm bm p cfp (Suc k)" "r = validated_result hm bm p cfp v k st'"
      by blast
    from kv(4) False have "\<forall>j. n \<le> j \<and> j < k \<longrightarrow> \<not> is_validated (outcome_of R hm bm p cfp j)"
      by (subst all_from) simp
    with kv have "n \<le> k \<and> k < 5 \<and> outcome_of R hm bm p cfp k = Validated v \<and>
            (\<forall>j. n \<le> j \<and> j < k \<longrightarrow> \<not> is_validated (outcome_of R hm bm p cfp j)) \<and>
            st' = state_before R hm bm p cfp (Suc k) \<and>
            r = validated_result hm bm p cfp v k st'" by simp
    then show ?thesis by blast
  qed
qed

lemma loop_Raise:
  assumes "i \<le> 5"
    and "attempts_loop R hm bm p cfp [i..<5] (state_before R hm bm p cfp i) = (Raise e, st')"
  shows "i \<le> 4 \<and> outcome_of R hm bm p cfp 4 = Failed e \<and> st' = state_before R hm bm p cfp 5 \<and>
         (\<forall>j. i \<le> j \<and> j < 4 \<longrightarrow> \<not> is_validated (outcome_of R hm bm p cfp j))"
  using assms
proof (induction i rule: inc_induct)
  case base
  then show ?case by simp
next
  case (step n)
  then have n5: "n < 5" by simp
  note ls = loop_step[OF n5, of R hm bm p cfp]
  show ?case
  proof (cases "n = 4")
    case True
    with ls step.prems show ?thesis
      by (cases "outcome_of R hm bm p cfp 4") (auto simp: state_before_5)
  next
    case False
    have nv: "\<not> is_validated (outcome_of R hm bm p cfp n)"
      using ls step.prems by (cases "outcome_of R hm bm p cfp n") (auto simp del: state_before.simps)
    from loop_next[OF n5 nv] False step.prems
    have "attempts_loop R hm bm p cfp [Suc n..<5] (state_before R hm bm p cfp (Suc n)) = (Raise e, st')"
      by simp
    from step.IH[OF this] nv n5 False show ?thesis
      by (subst all_from) simp
  qed
qed

lemma loop_Exhausted:
  assumes "i \<le> 5"
    and "attempts_loop R hm bm p cfp [i..<5] (state_before R hm bm p cfp i) = (Exhausted, st')"
  shows "st' = state_before R hm bm p cfp 5 \<and>
         (\<forall>j. i \<le> j \<and> j < 5 \<longrightarrow> \<not> is_validated (outcome_of R hm bm p cfp j)) \<and>
         (i \<le> 4 \<longrightarrow> (\<forall>e. outcome_of R hm bm p cfp 4 \<noteq> Failed e))"
  using assms
proof (induction i rule: inc_induct)
  case base
  then show ?case by auto
next
  case (step n)
  then have n5: "n < 5" by simp
  note ls = loop_step[OF n5, of R hm bm p cfp]
  have nv: "\<not> is_validated (outcome_of R hm bm p cfp n)"
    using ls step.prems by (cases "outcome_of R hm bm p cfp n") (auto simp del: state_before.simps)
  have nf: "n = 4 \<longrightarrow> (\<forall>e. outcome_of R hm bm p cfp n \<noteq> Failed e)"
  proof (intro impI allI notI)
    fix e assume "n = 4" "outcome_of R hm bm p cfp n = Failed e"
    with ls step.prems show False by (auto simp del: state_before.simps)
  qed
  from loop_next[OF n5 nv nf] step.prems
  have "attempts_loop R hm bm p cfp [Suc n..<5] (state_before R hm bm p cfp (Suc n)) = (Exhausted, st')"
    by simp
  from step.IH[OF this] have IH: "st' = state_before R hm bm p cfp 5"
    "\<forall>j. Suc n \<le> j \<and> j < 5 \<longrightarrow> \<not> is_validated (outcome_of R hm bm p cfp j)"
    "Suc n \<le> 4 \<longrightarrow> (\<forall>e. outcome_of R hm bm p cfp 4 \<noteq> Failed e)"
    by simp_all
  from IH(2) nv have a: "\<forall>j. n \<le> j \<and> j < 5 \<longrightarrow> \<not> is_validated (outcome_of R hm bm p cfp j)"
    by (subst all_from) simp
  have b: "n \<le> 4 \<longrightarrow> (\<forall>e. outcome_of R hm bm p cfp 4 \<noteq> Failed e)"
  proof (cases "n = 4")
    case True
    with nf show ?thesis by simp
  next
    case False
    with n5 have "Suc n \<le> 4" by simp
    with IH(3) show ?thesis by simp
  qed
  from IH(1) a b show ?case by simp
qed

section \<open>What one attempt adds to the history and to the total\<close>

lemma communicate_grows:
  assumes "communicate_with_ai R m p cfp st = (out, st1)"
  shows "history st1 = history st @ [\<lparr>req_model = m, req_prompt = p, outcome = out\<rparr>]"
    and "total_cost st1 = total_cost st"
    and "out = R (history st) m p cfp"
  using assms by (auto simp: communicate_with_ai_def Let_def)

lemma track_cost_history: "history (track_cost cfp r st) = history st"
  by (simp add: track_cost_def split: option.splits)

lemma track_cost_total:
  "total_cost (track_cost cfp r st) =
     total_cost st + (if cfp then contribution \<lparr>req_model = m, req_prompt = p, outcome = Inr r\<rparr> else 0)"
  by (simp add: track_cost_def contribution_def split: option.splits)

lemma contribution_Inl: "contribution \<lparr>req_model = m, req_prompt = p, outcome = Inl e\<rparr> = 0"
  by (simp add: contribution_def)

lemma sample_loop_grows:
  assumes "sample_loop R hm p cfp n rs st = (x, st')"
  shows "\<exists>cs. history st' = history st @ cs \<and> length cs \<le> n \<and>
           total_cost st' = total_cost st + (if cfp then sum_list (map contribution cs) else 0) \<and>
           (\<forall>e. x = Inl e \<longrightarrow> cs \<noteq> [] \<and> outcome (last cs) = Inl e)"
  using assms
proof (induction n arbitrary: rs st)
  case 0
  then show ?case by auto
next
  case (Suc n)
  obtain out st1 where c: "communicate_with_ai R hm p cfp st = (out, st1)"
    by (cases "communicate_with_ai R hm p cfp st")
  note g = communicate_grows[OF c]
  show ?case
  proof (cases out)
    case (Inl e)
    with Suc.prems c have "x = Inl e" "st' = st1" by auto
    with g(1,2) Inl have "history st' = history st @ [\<lparr>req_model = hm, req_prompt = p, outcome = Inl e\<rparr>]
        \<and> length [\<lparr>req_model = hm, req_prompt = p, outcome = Inl e\<rparr>] \<le> Suc n
        \<and> total_cost st' = total_cost st + (if cfp then sum_list (map contribution [\<lparr>req_model = hm, req_prompt = p, outcome = Inl e\<rparr>]) else 0)
        \<and> (\<forall>e'. x = Inl e' \<longrightarrow> [\<lparr>req_model = hm, req_prompt = p, outcome = Inl e\<rparr>] \<noteq> [] \<and>
              outcome (last [\<lparr>req_model = hm, req_prompt = p, outcome = Inl e\<rparr>]) = Inl e')"
      by (simp add: contribution_Inl)
    then show ?thesis by blast
  next
    case (Inr r)
    with Suc.prems c have "sample_loop R hm p cfp n (rs @ [response r]) (track_cost cfp r st1) = (x, st')"
      by simp
    from Suc.IH[OF this] obtain cs where cs:
      "history st' = history (track_cost cfp r st1) @ cs" "length cs \<le> n"
      "total_cost st' = total_cost (track_cost cfp r st1) + (if cfp then sum_list (map contribution cs) else 0)"
      "\<forall>e. x = Inl e \<longrightarrow> cs \<noteq> [] \<and> outcome (last cs) = Inl e"
      by blast
    let ?c = "\<lparr>req_model = hm, req_prompt = p, outcome = Inr r\<rparr>"
    have "history st' = history st @ (?c # cs)"
      using cs(1) g(1) Inr by (simp add: track_cost_history)
    moreover have "length (?c # cs) \<le> Suc n" using cs(2) by simp
    moreover have "total_cost st' = total_cost st + (if cfp then sum_list (map contribution (?c # cs)) else 0)"
      using cs(3) g(2) by (simp add: track_cost_total[of cfp r st1 hm p])
    moreover have "\<forall>e. x = Inl e \<longrightarrow> ?c # cs \<noteq> [] \<and> outcome (last (?c # cs)) = Inl e"
      using cs(4) by auto
    ultimately show ?thesis by blast
  qed
qed

lemma attempt_grows:
  assumes "attempt_body R hm bm p cfp st = (x, st')"
  shows "\<exists>cs. history st' = history st @ cs \<and> length cs \<le> 4 \<and>
           total_cost st' = total_cost st + (if cfp then sum_list (map contribution cs) else 0) \<and>
           (\<forall>e. x = Failed e \<longrightarrow> cs \<noteq> [] \<and> outcome (last cs) = Inl e)"
proof -
  obtain y st1 where s: "sample_loop R hm p cfp 3 [] st = (y, st1)"
    by (cases "sample_loop R hm p cfp 3 [] st")
  from sample_loop_grows[OF s] obtain cs where cs:
    "history st1 = history st @ cs" "length cs \<le> 3"
    "total_cost st1 = total_cost st + (if cfp then sum_list (map contribution cs) else 0)"
    "\<forall>e. y = Inl e \<longrightarrow> cs \<noteq> [] \<and> outcome (last cs) = Inl e"
    by blast
  show ?thesis
  proof (cases y)
    case (Inl e)
    with assms s have "x = Failed e" "st' = st1" by (auto simp: attempt_body_def)
    with cs Inl have "history st' = history st @ cs \<and> length cs \<le> 4 \<and>
           total_cost st' = total_cost st + (if cfp then sum_list (map contribution cs) else 0) \<and>
           (\<forall>e. x = Failed e \<longrightarrow> cs \<noteq> [] \<and> outcome (last cs) = Inl e)" by simp
    then show ?thesis by blast
  next
    case (Inr rs)
    show ?thesis
    proof (cases "card (set rs) = 1")
      case False
      with assms s Inr have "x = Disagreed" "st' = st1" by (auto simp: attempt_body_def)
      with cs have "history st' = history st @ cs \<and> length cs \<le> 4 \<and>
           total_cost st' = total_cost st + (if cfp then sum_list (map contribution cs) else 0) \<and>
           (\<forall>e. x = Failed e \<longrightarrow> cs \<noteq> [] \<and> outcome (last cs) = Inl e)" by simp
      then show ?thesis by blast
    next
      case True
      obtain out st2 where c: "communicate_with_ai R bm (validation_prompt p rs) cfp st1 = (out, st2)"
        by (cases "communicate_with_ai R bm (validation_prompt p rs) cfp st1")
      note g = communicate_grows[OF c]
      show ?thesis
      proof (cases out)
        case (Inl e)
        with assms s Inr True c have x: "x = Failed e" "st' = st2" by (auto simp: attempt_body_def)
        let ?c = "\<lparr>req_model = bm, req_prompt = validation_prompt p rs, outcome = Inl e\<rparr>"
        have "history st' = history st @ (cs @ [?c]) \<and> length (cs @ [?c]) \<le> 4 \<and>
           total_cost st' = total_cost st + (if cfp then sum_list (map contribution (cs @ [?c])) else 0) \<and>
           (\<forall>e. x = Failed e \<longrightarrow> cs @ [?c] \<noteq> [] \<and> outcome (last (cs @ [?c])) = Inl e)"
          using x cs g(1,2) Inl by (simp add: contribution_Inl)
        then show ?thesis by blast
      next
        case (Inr vr)
        with assms s \<open>y = Inr rs\<close> True c have x: "st' = track_cost cfp vr st2" "\<forall>e. x \<noteq> Failed e"
          by (auto simp: attempt_body_def Let_def split: if_splits)
        let ?c = "\<lparr>req_model = bm, req_prompt = validation_prompt p rs, outcome = Inr vr\<rparr>"
        have "history st' = history st @ (cs @ [?c]) \<and> length (cs @ [?c]) \<le> 4 \<and>
           total_cost st' = total_cost st + (if cfp then sum_list (map contribution (cs @ [?c])) else 0) \<and>
           (\<forall>e. x = Failed e \<longrightarrow> cs @ [?c] \<noteq> [] \<and> outcome (last (cs @ [?c])) = Inl e)"
          using x cs g(1,2) Inr
          by (simp add: track_cost_history track_cost_total[of cfp vr st2 bm "validation_prompt p rs"])
        then show ?thesis by blast
      qed
    qed
  qed
qed

lemma state_before_tracked:
  "length (history (state_before R hm bm p cfp k)) \<le> 4 * k \<and>
   total_cost (state_before R hm bm p cfp k) =
     (if cfp then sum_list (map contribution (history (state_before R hm bm p cfp k))) else 0)"
proof (induction k)
  case 0
  then show ?case by (simp add: initial_state_def)
next
  case (Suc k)
  from attempt_grows[OF attempt_at, of R hm bm p cfp k] obtain cs where
    "history (state_before R hm bm p cfp (Suc k)) = history (state_before R hm bm p cfp k) @ cs"
    "length cs \<le> 4"
    "total_cost (state_before R hm bm p cfp (Suc k)) = total_cost (state_before R hm bm p cfp k)
        + (if cfp then sum_list (map contribution cs) else 0)"
    by blast
  with Suc.IH show ?case by (cases cfp) (simp_all del: state_before.simps)
qed

lemma sample_loop_3:
  "sample_loop R hm p cfp 3 [] st = (Inr rs, st') \<Longrightarrow>
   \<exists>r1 r2 r3. rs = [response r1, response r2, response r3] \<and>
     history st' = history st @ [\<lparr>req_model = hm, req_prompt = p, outcome = Inr r1\<rparr>,
                                 \<lparr>req_model = hm, req_prompt = p, outcome = Inr r2\<rparr>,
                                 \<lparr>req_model = hm, req_prompt = p, outcome = Inr r3\<rparr>]"
  by (auto simp: numeral_3_eq_3 communicate_with_ai_def track_cost_def Let_def
           split: sum.splits option.splits if_splits)

lemma attempt_verified:
  assumes "attempt_body R hm bm p cfp st = (x, st')" and "x = Rejected \<or> x = Validated v"
  shows "\<exists>r1 r2 r3 vr.
     history st' = history st @ [\<lparr>req_model = hm, req_prompt = p, outcome = Inr r1\<rparr>,
                                 \<lparr>req_model = hm, req_prompt = p, outcome = Inr r2\<rparr>,
                                 \<lparr>req_model = hm, req_prompt = p, outcome = Inr r3\<rparr>,
                                 \<lparr>req_model = bm,
                                  req_prompt = validation_prompt p [response r1, response r2, response r3],
                                  outcome = Inr vr\<rparr>] \<and>
     response r1 = response r2 \<and> response r2 = response r3 \<and>
     (x = Rejected \<longrightarrow> strip (response vr) = sentinel) \<and>
     (x = Validated v \<longrightarrow> v = strip (response vr) \<and> strip (response vr) \<noteq> sentinel)"
proof -
  from assms obtain rs st1 where s: "sample_loop R hm p cfp 3 [] st = (Inr rs, st1)"
    and c: "card (set rs) = 1"
    by (auto simp: attempt_body_def split: prod.splits sum.splits if_splits)
  from sample_loop_3[OF s] obtain r1 r2 r3 where rs: "rs = [response r1, response r2, response r3]"
    and h1: "history st1 = history st @ [\<lparr>req_model = hm, req_prompt = p, outcome = Inr r1\<rparr>,
                                 \<lparr>req_model = hm, req_prompt = p, outcome = Inr r2\<rparr>,
                                 \<lparr>req_model = hm, req_prompt = p, outcome = Inr r3\<rparr>]"
    by blast
  from c rs have eq: "response r1 = response r2 \<and> response r2 = response r3"
    using card_three by metis
  from assms s c obtain vr st2 where
    v: "communicate_with_ai R bm (validation_prompt p rs) cfp st1 = (Inr vr, st2)"
    and rest: "x = Rejected \<longrightarrow> strip (response vr) = sentinel"
      "x = Validated v \<longrightarrow> v = strip (response vr) \<and> strip (response vr) \<noteq> sentinel"
      "st' = track_cost cfp vr st2"
    by (auto simp: attempt_body_def Let_def split: prod.splits sum.splits if_splits)
  from communicate_grows(1)[OF v]
  have h2: "history st2 = history st1 @
      [\<lparr>req_model = bm, req_prompt = validation_prompt p rs, outcome = Inr vr\<rparr>]" .
  have h3: "history st' = history st2"
    using rest(3) by (simp add: track_cost_history)
  show ?thesis using h1 h2 h3 eq rest(1,2) rs by auto
qed

section \<open>The whole call in terms of its attempts\<close>

lemma run_config_error:
  assumes "ai_call_checked_run cfg R vndr p cfp = (x, st)"
  shows "(st = initial_state \<and> (\<exists>msg. x = Inl (ValueError msg))) \<or>
         (\<exists>hm bm. vndr \<in> set allowed_vendors \<and> find_models cfg vndr (None, None) = (Some hm, Some bm) \<and>
            hm \<noteq> [] \<and> bm \<noteq> [] \<and>
            (x, st) = finish_loop vndr hm p cfp
                        (attempts_loop R hm bm p cfp [0..<5] (state_before R hm bm p cfp 0)))"
  using assms
  by (auto simp: ai_call_checked_run_def no_model_def split: prod.splits if_splits option.splits)

lemma run_resolved:
  assumes "vndr \<in> set allowed_vendors" "find_models cfg vndr (None, None) = (Some hm, Some bm)"
    "hm \<noteq> []" "bm \<noteq> []"
  shows "ai_call_checked_run cfg R vndr p cfp =
           finish_loop vndr hm p cfp
             (attempts_loop R hm bm p cfp [0..<5] (state_before R hm bm p cfp 0))"
  using assms by (simp add: ai_call_checked_run_def no_model_def)

lemma run_Inr:
  assumes "ai_call_checked_run cfg R vndr p cfp = (Inr r, st)"
  shows "\<exists>hm bm. vndr \<in> set allowed_vendors \<and> find_models cfg vndr (None, None) = (Some hm, Some bm) \<and>
           hm \<noteq> [] \<and> bm \<noteq> [] \<and>
           ((\<exists>k v. k < 5 \<and> outcome_of R hm bm p cfp k = Validated v \<and>
                   (\<forall>j. j < k \<longrightarrow> \<not> is_validated (outcome_of R hm bm p cfp j)) \<and>
                   st = state_before R hm bm p cfp (Suc k) \<and>
                   r = validated_result hm bm p cfp v k st) \<or>
            (st = state_before R hm bm p cfp 5 \<and> r = failed_result vndr hm p cfp st \<and>
             (\<forall>j. j < 5 \<longrightarrow> \<not> is_validated (outcome_of R hm bm p cfp j))))"
proof -
  from run_config_error[OF assms] obtain hm bm where res:
    "vndr \<in> set allowed_vendors" "find_models cfg vndr (None, None) = (Some hm, Some bm)"
    "hm \<noteq> []" "bm \<noteq> []"
    and fin: "(Inr r, st) = finish_loop vndr hm p cfp
                 (attempts_loop R hm bm p cfp [0..<5] (state_before R hm bm p cfp 0))"
    by auto
  obtain ex st' where l: "attempts_loop R hm bm p cfp [0..<5] (state_before R hm bm p cfp 0) = (ex, st')"
    by (cases "attempts_loop R hm bm p cfp [0..<5] (state_before R hm bm p cfp 0)")
  have "(\<exists>k v. k < 5 \<and> outcome_of R hm bm p cfp k = Validated v \<and>
                   (\<forall>j. j < k \<longrightarrow> \<not> is_validated (outcome_of R hm bm p cfp j)) \<and>
                   st = state_before R hm bm p cfp (Suc k) \<and>
                   r = validated_result hm bm p cfp v k st) \<or>
            (st = state_before R hm bm p cfp 5 \<and> r = failed_result vndr hm p cfp st \<and>
             (\<forall>j. j < 5 \<longrightarrow> \<not> is_validated (outcome_of R hm bm p cfp j)))"
  proof (cases ex)
    case (Return r')
    with fin l have "r' = r" "st' = st" by (simp_all add: finish_loop_def)
    with l Return loop_Return[of 0 R hm bm p cfp r st] show ?thesis by simp
  next
    case (Raise e)
    with fin l show ?thesis by (simp add: finish_loop_def)
  next
    case Exhausted
    with fin l have "st' = st" "r = failed_result vndr hm p cfp st" by (simp_all add: finish_loop_def)
    with l Exhausted loop_Exhausted[of 0 R hm bm p cfp st] show ?thesis by simp
  qed
  with res show ?thesis by blast
qed

lemma run_Inl:
  assumes "ai_call_checked_run cfg R vndr p cfp = (Inl e, st)"
  shows "(st = initial_state \<and> (\<exists>msg. e = ValueError msg)) \<or>
         (\<exists>hm bm. vndr \<in> set allowed_vendors \<and> find_models cfg vndr (None, None) = (Some hm, Some bm) \<and>
            hm \<noteq> [] \<and> bm \<noteq> [] \<and> outcome_of R hm bm p cfp 4 = Failed e \<and>
            st = state_before R hm bm p cfp 5)"
proof -
  from run_config_error[OF assms] show ?thesis
  proof
    assume "st = initial_state \<and> (\<exists>msg. Inl e = Inl (ValueError msg))"
    then show ?thesis by auto
  next
    assume "\<exists>hm bm. vndr \<in> set allowed_vendors \<and> find_models cfg vndr (None, None) = (Some hm, Some bm) \<and>
            hm \<noteq> [] \<and> bm \<noteq> [] \<and>
            (Inl e, st) = finish_loop vndr hm p cfp
                        (attempts_loop R hm bm p cfp [0..<5] (state_before R hm bm p cfp 0))"
    then obtain hm bm where res:
      "vndr \<in> set allowed_vendors" "find_models cfg vndr (None, None) = (Some hm, Some bm)"
      "hm \<noteq> []" "bm \<noteq> []"
      and fin: "(Inl e, st) = finish_loop vndr hm p cfp
                 (attempts_loop R hm bm p cfp [0..<5] (state_before R hm bm p cfp 0))"
      by auto
    obtain ex st' where l: "attempts_loop R hm bm p cfp [0..<5] (state_before R hm bm p cfp 0) = (ex, st')"
      by (cases "attempts_loop R hm bm p cfp [0..<5] (state_before R hm bm p cfp 0)")
    from fin l have "ex = Raise e" "st' = st"
      by (cases ex; simp add: finish_loop_def)+
    with l loop_Raise[of 0 R hm bm p cfp e st]
    have "outcome_of R hm bm p cfp 4 = Failed e \<and> st = state_before R hm bm p cfp 5" by simp
    with res show ?thesis by blast
  qed
qed

lemma run_state:
  "snd (ai_call_checked_run cfg R vndr p cfp) = initial_state \<or>
   (\<exists>hm bm k. k \<le> 5 \<and> snd (ai_call_checked_run cfg R vndr p cfp) = state_before R hm bm p cfp k)"
proof -
  obtain x st where run: "ai_call_checked_run cfg R vndr p cfp = (x, st)"
    by (cases "ai_call_checked_run cfg R vndr p cfp")
  show ?thesis
  proof (cases x)
    case (Inl e)
    with run_Inl[of cfg R vndr p cfp e st] run show ?thesis
      by (metis order_refl snd_conv)
  next
    case (Inr r)
    with run_Inr[of cfg R vndr p cfp r st] run
    obtain hm bm where "(\<exists>k. k < 5 \<and> st = state_before R hm bm p cfp (Suc k)) \<or> st = state_before R hm bm p cfp 5"
      by blast
    then have "\<exists>k. k \<le> 5 \<and> st = state_before R hm bm p cfp k"
      by (metis Suc_leI order_refl)
    with run show ?thesis by auto
  qed
qed

lemma attempt_Disagreed:
  assumes "attempt_body R hm bm p cfp st = (Disagreed, st')"
  shows "\<exists>r1 r2 r3.
     history st' = history st @ [\<lparr>req_model = hm, req_prompt = p, outcome = Inr r1\<rparr>,
                                 \<lparr>req_model = hm, req_prompt = p, outcome = Inr r2\<rparr>,
                                 \<lparr>req_model = hm, req_prompt = p, outcome = Inr r3\<rparr>] \<and>
     \<not> (response r1 = response r2 \<and> response r2 = response r3)"
proof -
  from assms obtain rs where s: "sample_loop R hm p cfp 3 [] st = (Inr rs, st')"
    and c: "card (set rs) \<noteq> 1"
    by (auto simp: attempt_body_def Let_def split: prod.splits sum.splits if_splits)
  from sample_loop_3[OF s] c show ?thesis
    using card_three by metis
qed

lemma attempt_last_call:
  assumes "attempt_body R hm bm p cfp st = (x, st')"
  shows "history st' \<noteq> [] \<and> (x = Failed e \<longleftrightarrow> outcome (last (history st')) = Inl e)"
proof (cases x)
  case (Validated v)
  with attempt_verified[OF assms, of v] show ?thesis by auto
next
  case Rejected
  with attempt_verified[OF assms] show ?thesis by auto
next
  case Disagreed
  with attempt_Disagreed assms show ?thesis by fastforce
next
  case (Failed e')
  with attempt_grows[OF assms] obtain cs where "history st' = history st @ cs" "cs \<noteq> []"
    "outcome (last cs) = Inl e'" by auto
  with Failed show ?thesis by auto
qed






lemma find_snoc:
  "find P (xs @ [x]) = (case find P xs of None \<Rightarrow> (if P x then Some x else None) | Some y \<Rightarrow> Some y)"
  by (induction xs) auto

lemma last_model_with_Cons:
  "last_model_with ((name, info) # cfg) vndr role =
     (case last_model_with cfg vndr role of
        None \<Rightarrow> (if vendor info = vndr \<and> mtype info = role then Some name else None)
      | Some m \<Rightarrow> Some m)"
  by (simp add: last_model_with_def first_model_with_def find_snoc split: option.splits)

lemma find_models_last:
  "find_models cfg vndr (h, b) =
     (case last_model_with cfg vndr ''high'' of None \<Rightarrow> h | Some m \<Rightarrow> Some m,
      case last_model_with cfg vndr ''budget'' of None \<Rightarrow> b | Some m \<Rightarrow> Some m)"
proof (induction cfg arbitrary: h b)
  case Nil
  then show ?case by (simp add: last_model_with_def first_model_with_def)
next
  case (Cons a cfg)
  obtain name info where a: "a = (name, info)" by (cases a)
  show ?case unfolding a
    by (auto simp add: Cons.IH last_model_with_Cons split: option.splits)
qed


section \<open>The concrete runs\<close>

lemmas run_defs = ai_call_checked_def ai_call_checked_run_def allowed_vendors_def no_model_def
  finish_loop_def attempt_body_def communicate_with_ai_def track_cost_def initial_state_def
  validated_result_def failed_result_def strip_def isspace_def sentinel_def Let_def
  numeral_3_eq_3 card_insert_if upt_conv_Cons

lemma gemini_allowed: "''Gemini'' \<in> set allowed_vendors"
  by (simp add: allowed_vendors_def)

lemma demo_models:
  "find_models demo_config ''Gemini'' (None, None) = (Some ''gemini25pro'', Some ''gemini25flash'')"
  by (simp add: demo_config_def)

lemma paris_run:
  "ai_call_checked demo_config (verdict_router ''Paris'') ''Gemini'' france True =
     Inr \<lparr>response = ''Paris'', model_used = ''gemini25pro (validated by gemini25flash)'',
          finish_reason = ''validated'', cost = Some (1 / 25), prompt = france, attempts = 1\<rparr>"
  by (simp add: run_defs demo_config_def verdict_router_def)

lemma reject_run:
  "ai_call_checked demo_config (verdict_router ''%FALSE%'') ''Gemini'' france True =
     Inr \<lparr>response = ''ERROR: Failed to get validated response after 5 attempts for vendor: Gemini'',
          model_used = ''gemini25pro (validation failed)'',
          finish_reason = ''validation_failed'', cost = Some (1 / 5), prompt = france, attempts = 5\<rparr>"
  by (simp add: run_defs demo_config_def verdict_router_def)






lemma flaky_first:
  "attempt_body flaky_router hm bm p cfp initial_state =
     (Failed (Exception ''API call failed''),
      \<lparr>history = [\<lparr>req_model = hm, req_prompt = p, outcome = Inl (Exception ''API call failed'')\<rparr>],
       total_cost = 0\<rparr>)"
  by (simp add: attempt_body_def communicate_with_ai_def flaky_router_def numeral_3_eq_3 Let_def
        initial_state_def)

lemma flaky_second:
  "fst (attempt_body flaky_router ''gemini25pro'' ''gemini25flash'' p True
     \<lparr>history = [\<lparr>req_model = ''gemini25pro'', req_prompt = p,
                   outcome = Inl (Exception ''API call failed'')\<rparr>],
       total_cost = 0\<rparr>) = Validated ''Paris''"
  by (simp add: attempt_body_def communicate_with_ai_def flaky_router_def verdict_router_def
        numeral_3_eq_3 Let_def track_cost_def card_insert_if strip_def isspace_def sentinel_def)

lemma flaky_outcomes:
  "outcome_of flaky_router ''gemini25pro'' ''gemini25flash'' p True 0 = Failed (Exception ''API call failed'')"
  "outcome_of flaky_router ''gemini25pro'' ''gemini25flash'' p True 1 = Validated ''Paris''"
  by (simp_all add: outcome_of_def flaky_first flaky_second)

section \<open>Properties of the vendor clients\<close>

text \<open>
  C9. Every successful call through the Gemini client returns the finish reason \<open>stop\<close>;
  it never returns \<open>length\<close> or \<open>other\<close>, whatever the provider did.
\<close>

theorem gemini_finish_reason_stop:
  "gemini_call_api provider cfg model_name prmpt system_message temperature max_tokens calc_cost = Inr r
   \<Longrightarrow> finish_reason r = ''stop'' \<and> finish_reason r \<noteq> ''length'' \<and> finish_reason r \<noteq> ''other''"
  by (auto simp: gemini_call_api_def Let_def split: sum.splits if_splits)

theorem gemini_finish_reason_stop_witness:
  "gemini_call_api paris_genai demo_config ''gemini25pro'' france (Some ''Be brief'') (7 / 10) None True
     = Inr \<lparr>response = ''Paris is the capital'', model_used = ''gemini-2.5-pro'',
             finish_reason = ''stop'', cost = Some (11 / 500)\<rparr>
   \<and> finish_reason \<lparr>response = ''Paris is the capital'', model_used = ''gemini-2.5-pro'',
             finish_reason = ''stop'', cost = Some (11 / 500)\<rparr> = ''stop''"
proof -
  have h: "gemini_call_api paris_genai demo_config ''gemini25pro'' france (Some ''Be brief'') (7 / 10) None True
     = Inr \<lparr>response = ''Paris is the capital'', model_used = ''gemini-2.5-pro'',
             finish_reason = ''stop'', cost = Some (11 / 500)\<rparr>"
    by (simp add: gemini_call_api_def get_model_info_def demo_config_def gemini_full_prompt_def
          truthy_int_def calculate_cost_def estimate_tokens_def paris_genai_def france_def Let_def)
  from gemini_finish_reason_stop[OF h] h show ?thesis by simp
qed

text \<open>
  C8, as the claim states it, fails of both clients. The Gemini client does not take the
  token counts from the usage report when the provider sends one: with a report of 8 and 6
  tokens it still charges the estimate, 7 and 5 tokens. The OpenAI client does not estimate
  when the reply has no usage report: the call fails.
\<close>

theorem usage_when_available_counterexample:
  "gemini_call_api paris_genai demo_config ''gemini25pro'' france None (7 / 10) None True =
     Inr \<lparr>response = ''Paris is the capital'', model_used = ''gemini-2.5-pro'',
          finish_reason = ''stop'', cost = Some (17 / 1000)\<rparr> \<and>
   spec_cost (1 / 1000) (2 / 1000) (Some (8, 6)) france ''Paris is the capital'' = 20 / 1000 \<and>
   (17 / 1000 :: real) \<noteq> 20 / 1000 \<and>
   openai_call_api unmetered_openai demo_config ''gpt4'' france None (7 / 10) None True =
     Inl (Exception (''OpenAI API call failed: '' @ quoted ''NoneType''
            @ '' object has no attribute '' @ quoted ''prompt_tokens'')) \<and>
   spec_cost (3 / 1000) (6 / 1000) None france ''Paris'' = 27 / 1000"
  by (simp add: gemini_call_api_def openai_call_api_def get_model_info_def demo_config_def
        gemini_full_prompt_def openai_messages_def truthy_int_def calculate_cost_def
        estimate_tokens_def paris_genai_def unmetered_openai_def france_def spec_cost_def
        spec_token_counts_def Let_def)

text \<open>
  C8, amended. With the cost asked for, a successful call through the OpenAI or the Gemini
  client carries the cost
  \<open>input_tokens * price_per_input_tokens + output_tokens * price_per_output_tokens\<close>.
  The OpenAI client takes the two token counts from the usage report of the provider's
  reply, and the call fails when the reply has none. The Gemini client always estimates them
  as the number of characters divided by 4, rounded down, of the full prompt and of the
  response text, whether the provider sends a usage report or not.
\<close>

theorem adapter_cost_formula:
  "(openai_call_api provider cfg model_name prmpt system_message temperature max_tokens True = Inr r \<longrightarrow>
      (\<exists>info reply u.
         map_of cfg model_name = Some info \<and>
         provider (vendor_model_id info) (openai_messages prmpt system_message) temperature
           (if truthy_int max_tokens then max_tokens else None) = Inr reply \<and>
         usage reply = Some u \<and>
         cost r = Some (of_int (prompt_tokens u) * price_per_input_tokens info
                        + of_int (completion_tokens u) * price_per_output_tokens info))) \<and>
   (map_of cfg model_name = Some info' \<and> vendor info' = ''OpenAI'' \<and>
    provider (vendor_model_id info') (openai_messages prmpt system_message) temperature
      (if truthy_int max_tokens then max_tokens else None) = Inr reply' \<and>
    usage reply' = None \<longrightarrow>
      (\<exists>msg. openai_call_api provider cfg model_name prmpt system_message temperature max_tokens True
               = Inl (Exception msg))) \<and>
   (gemini_call_api gprovider cfg model_name prmpt system_message temperature max_tokens True = Inr r' \<longrightarrow>
      (\<exists>info greply.
         map_of cfg model_name = Some info \<and>
         gprovider (vendor_model_id info) temperature
           (if truthy_int max_tokens then max_tokens else None)
           (gemini_full_prompt prmpt system_message) = Inr greply \<and>
         response r' = response_text greply \<and>
         cost r' = Some (of_int (int (length (gemini_full_prompt prmpt system_message)) div 4)
                           * price_per_input_tokens info
                         + of_int (int (length (response_text greply)) div 4)
                           * price_per_output_tokens info)))"
  by (auto simp: openai_call_api_def gemini_call_api_def get_model_info_def calculate_cost_def
        estimate_tokens_def Let_def split: sum.splits option.splits if_splits)

theorem adapter_cost_formula_witness:
  "(\<exists>info reply u.
      map_of demo_config ''gpt4'' = Some info \<and>
      paris_openai (vendor_model_id info) (openai_messages france None) (7 / 10) None = Inr reply \<and>
      usage reply = Some u \<and>
      cost \<lparr>response = ''Paris'', model_used = ''gpt-4'', finish_reason = ''length'',
            cost = Some (6 / 125)\<rparr>
        = Some (of_int (prompt_tokens u) * price_per_input_tokens info
                + of_int (completion_tokens u) * price_per_output_tokens info)) \<and>
   (\<exists>msg. openai_call_api unmetered_openai demo_config ''gpt4'' france None (7 / 10) None True
            = Inl (Exception msg)) \<and>
   (\<exists>info greply.
      map_of demo_config ''gemini25pro'' = Some info \<and>
      paris_genai (vendor_model_id info) (7 / 10) None
        (gemini_full_prompt france (Some ''Be brief'')) = Inr greply \<and>
      response \<lparr>response = ''Paris is the capital'', model_used = ''gemini-2.5-pro'',
                finish_reason = ''stop'', cost = Some (11 / 500)\<rparr> = response_text greply \<and>
      cost \<lparr>response = ''Paris is the capital'', model_used = ''gemini-2.5-pro'',
            finish_reason = ''stop'', cost = Some (11 / 500)\<rparr>
        = Some (of_int (int (length (gemini_full_prompt france (Some ''Be brief''))) div 4)
                  * price_per_input_tokens info
                + of_int (int (length (response_text greply)) div 4)
                  * price_per_output_tokens info))"
proof -
  let ?gpt4 = "\<lparr>vendor = ''OpenAI'', vendor_model_id = ''gpt-4'', mtype = ''high'',
         price_per_input_tokens = 3 / 1000, price_per_output_tokens = 6 / 1000\<rparr>"
  let ?silent = "\<lparr>content = ''Paris'', choice_finish_reason = ''stop'', usage = None\<rparr>"
  have h1: "openai_call_api paris_openai demo_config ''gpt4'' france None (7 / 10) None True
     = Inr \<lparr>response = ''Paris'', model_used = ''gpt-4'', finish_reason = ''length'',
             cost = Some (6 / 125)\<rparr>"
    by (simp add: openai_call_api_def get_model_info_def demo_config_def openai_messages_def
          truthy_int_def calculate_cost_def paris_openai_def france_def Let_def)
  have h2: "gemini_call_api paris_genai demo_config ''gemini25pro'' france (Some ''Be brief'') (7 / 10)
       None True
     = Inr \<lparr>response = ''Paris is the capital'', model_used = ''gemini-2.5-pro'',
             finish_reason = ''stop'', cost = Some (11 / 500)\<rparr>"
    by (simp add: gemini_call_api_def get_model_info_def demo_config_def gemini_full_prompt_def
          truthy_int_def calculate_cost_def estimate_tokens_def paris_genai_def france_def Let_def)
  have h3: "map_of demo_config ''gpt4'' = Some ?gpt4 \<and> vendor ?gpt4 = ''OpenAI'' \<and>
     unmetered_openai (vendor_model_id ?gpt4) (openai_messages france None) (7 / 10)
       (if truthy_int None then None else None) = Inr ?silent \<and>
     usage ?silent = None"
    by (simp add: demo_config_def unmetered_openai_def)
  have t: "truthy_int None = False" by (simp add: truthy_int_def)
  from adapter_cost_formula[of paris_openai demo_config "''gpt4''" france None "7 / 10" None
      "\<lparr>response = ''Paris'', model_used = ''gpt-4'', finish_reason = ''length'',
        cost = Some (6 / 125)\<rparr>", THEN conjunct1, THEN mp, OF h1] t
  have a: "\<exists>info reply u.
      map_of demo_config ''gpt4'' = Some info \<and>
      paris_openai (vendor_model_id info) (openai_messages france None) (7 / 10) None = Inr reply \<and>
      usage reply = Some u \<and>
      cost \<lparr>response = ''Paris'', model_used = ''gpt-4'', finish_reason = ''length'',
            cost = Some (6 / 125)\<rparr>
        = Some (of_int (prompt_tokens u) * price_per_input_tokens info
                + of_int (completion_tokens u) * price_per_output_tokens info)"
    by simp
  from adapter_cost_formula[of unmetered_openai demo_config "''gpt4''" france None "7 / 10" None
      _ ?gpt4 ?silent, THEN conjunct2, THEN conjunct1, THEN mp, OF h3]
  have b: "\<exists>msg. openai_call_api unmetered_openai demo_config ''gpt4'' france None (7 / 10) None True
            = Inl (Exception msg)" .
  from adapter_cost_formula[of _ demo_config "''gemini25pro''" france "Some ''Be brief''" "7 / 10"
      None _ _ _ paris_genai
      "\<lparr>response = ''Paris is the capital'', model_used = ''gemini-2.5-pro'',
        finish_reason = ''stop'', cost = Some (11 / 500)\<rparr>",
      THEN conjunct2, THEN conjunct2, THEN mp, OF h2] t
  have c: "\<exists>info greply.
      map_of demo_config ''gemini25pro'' = Some info \<and>
      paris_genai (vendor_model_id info) (7 / 10) None
        (gemini_full_prompt france (Some ''Be brief'')) = Inr greply \<and>
      response \<lparr>response = ''Paris is the capital'', model_used = ''gemini-2.5-pro'',
                finish_reason = ''stop'', cost = Some (11 / 500)\<rparr> = response_text greply \<and>
      cost \<lparr>response = ''Paris is the capital'', model_used = ''gemini-2.5-pro'',
            finish_reason = ''stop'', cost = Some (11 / 500)\<rparr>
        = Some (of_int (int (length (gemini_full_prompt france (Some ''Be brief''))) div 4)
                  * price_per_input_tokens info
                + of_int (int (length (response_text greply)) div 4)
                  * price_per_output_tokens info)"
    by simp
  from a b c show ?thesis by blast
qed

section \<open>Properties of the checked call\<close>

text \<open>
  C1. Whenever the checked call returns the status \<open>validated\<close>, the last four calls it
  made are one attempt: three calls to the high model with the original prompt, whose three
  response texts are equal, and one call to the budget model with the validation prompt
  built from them, whose response is not the sentinel \<open>%FALSE%\<close>.
\<close>

theorem validated_only_after_consensus_and_verification:
  assumes "ai_call_checked cfg R vndr prmpt cfp = Inr r" and "finish_reason r = ''validated''"
  shows "\<exists>h hm bm r1 r2 r3 vr.
     find_models cfg vndr (None, None) = (Some hm, Some bm) \<and>
     history (snd (ai_call_checked_run cfg R vndr prmpt cfp)) =
       h @ [\<lparr>req_model = hm, req_prompt = prmpt, outcome = Inr r1\<rparr>,
            \<lparr>req_model = hm, req_prompt = prmpt, outcome = Inr r2\<rparr>,
            \<lparr>req_model = hm, req_prompt = prmpt, outcome = Inr r3\<rparr>,
            \<lparr>req_model = bm,
             req_prompt = validation_prompt prmpt [response r1, response r2, response r3],
             outcome = Inr vr\<rparr>] \<and>
     response r1 = response r2 \<and> response r2 = response r3 \<and>
     response vr \<noteq> ''%FALSE%''"
proof -
  obtain st where run: "ai_call_checked_run cfg R vndr prmpt cfp = (Inr r, st)"
    using assms(1) by (cases "ai_call_checked_run cfg R vndr prmpt cfp") (simp add: ai_call_checked_def)
  from run_Inr[OF run] assms(2) obtain hm bm k v where
    res: "find_models cfg vndr (None, None) = (Some hm, Some bm)"
    and k: "outcome_of R hm bm prmpt cfp k = Validated v" "st = state_before R hm bm prmpt cfp (Suc k)"
    by (auto simp: failed_result_def)
  from attempt_at[of R hm bm prmpt cfp k] k
  have "attempt_body R hm bm prmpt cfp (state_before R hm bm prmpt cfp k) = (Validated v, st)"
    by simp
  from attempt_verified[OF this, of v] obtain r1 r2 r3 vr where
    h: "history st = history (state_before R hm bm prmpt cfp k) @
           [\<lparr>req_model = hm, req_prompt = prmpt, outcome = Inr r1\<rparr>,
            \<lparr>req_model = hm, req_prompt = prmpt, outcome = Inr r2\<rparr>,
            \<lparr>req_model = hm, req_prompt = prmpt, outcome = Inr r3\<rparr>,
            \<lparr>req_model = bm,
             req_prompt = validation_prompt prmpt [response r1, response r2, response r3],
             outcome = Inr vr\<rparr>]"
    and eq: "response r1 = response r2" "response r2 = response r3"
    and ne: "strip (response vr) \<noteq> sentinel"
    by auto
  from ne strip_sentinel have "response vr \<noteq> ''%FALSE%''"
    by (auto simp: sentinel_def)
  with res h eq run show ?thesis by auto
qed

theorem validated_only_after_consensus_and_verification_witness:
  "\<exists>h hm bm r1 r2 r3 vr.
     find_models demo_config ''Gemini'' (None, None) = (Some hm, Some bm) \<and>
     history (snd (ai_call_checked_run demo_config (verdict_router ''Paris'') ''Gemini'' france True)) =
       h @ [\<lparr>req_model = hm, req_prompt = france, outcome = Inr r1\<rparr>,
            \<lparr>req_model = hm, req_prompt = france, outcome = Inr r2\<rparr>,
            \<lparr>req_model = hm, req_prompt = france, outcome = Inr r3\<rparr>,
            \<lparr>req_model = bm,
             req_prompt = validation_prompt france [response r1, response r2, response r3],
             outcome = Inr vr\<rparr>] \<and>
     response r1 = response r2 \<and> response r2 = response r3 \<and>
     response vr \<noteq> ''%FALSE%''"
proof -
  have "finish_reason \<lparr>response = ''Paris'', model_used = ''gemini25pro (validated by gemini25flash)'',
          finish_reason = ''validated'', cost = Some (1 / 25), prompt = france, attempts = 1\<rparr>
        = ''validated''" by simp
  from validated_only_after_consensus_and_verification[OF paris_run this] show ?thesis .
qed

text \<open>
  C2, as the claim states it, fails: a verification response \<open>%FALSE%\<close> followed by a
  newline is not the sentinel, and the attempt is rejected all the same, because the code
  compares the response after \<open>strip()\<close>.
\<close>

theorem rejection_not_exact_counterexample:
  "fst (attempt_body (verdict_router (''%FALSE%'' @ [CHR 0x0A])) ''gemini25pro'' ''gemini25flash''
          france True initial_state) = Rejected \<and>
   outcome (last (history (snd (attempt_body (verdict_router (''%FALSE%'' @ [CHR 0x0A]))
          ''gemini25pro'' ''gemini25flash'' france True initial_state)))) =
     Inr \<lparr>response = ''%FALSE%'' @ [CHR 0x0A], model_used = ''gemini25flash'',
          finish_reason = ''stop'', cost = Some (1 / 100)\<rparr> \<and>
   ''%FALSE%'' @ [CHR 0x0A] \<noteq> ''%FALSE%''"
  by (simp add: attempt_body_def communicate_with_ai_def verdict_router_def
        numeral_3_eq_3 Let_def track_cost_def card_insert_if strip_def isspace_def sentinel_def
        initial_state_def)

text \<open>
  C2, amended. When an attempt has received a verification response (its fourth call
  returned), the attempt is rejected if and only if that response, with leading and trailing
  whitespace removed, equals \<open>%FALSE%\<close>; a rejected attempt hands its state to the next
  attempt of the loop.
\<close>

theorem rejection_iff_stripped_sentinel:
  assumes "attempt_body R hm bm prmpt cfp st = (x, st')"
    and "history st' = history st @ [c1, c2, c3, c4]"
    and "outcome c4 = Inr vr"
  shows "(x = Rejected \<longleftrightarrow> strip (response vr) = ''%FALSE%'') \<and>
         (x = Rejected \<longrightarrow>
            attempts_loop R hm bm prmpt cfp (attempt # rest) st =
            attempts_loop R hm bm prmpt cfp rest st')"
proof -
  have loop: "x = Rejected \<longrightarrow>
            attempts_loop R hm bm prmpt cfp (attempt # rest) st =
            attempts_loop R hm bm prmpt cfp rest st'"
    using assms(1) by simp
  have "x = Rejected \<longleftrightarrow> strip (response vr) = sentinel"
  proof (cases x)
    case (Validated v)
    with attempt_verified[OF assms(1), of v] assms(2,3) show ?thesis by auto
  next
    case Rejected
    with attempt_verified[OF assms(1)] assms(2,3) show ?thesis by auto
  next
    case Disagreed
    with attempt_Disagreed[of R hm bm prmpt cfp st st'] assms(1,2) show ?thesis by auto
  next
    case (Failed e)
    with attempt_last_call[OF assms(1), of e] assms(2,3) show ?thesis by auto
  qed
  with loop show ?thesis by (simp add: sentinel_def)
qed

theorem rejection_iff_stripped_sentinel_witness:
  "(Rejected = Rejected \<longleftrightarrow>
      strip (response \<lparr>response = ''%FALSE%'', model_used = ''gemini25flash'',
                        finish_reason = ''stop'', cost = Some (1 / 100)\<rparr>) = ''%FALSE%'') \<and>
   attempts_loop (verdict_router ''%FALSE%'') ''gemini25pro'' ''gemini25flash'' france True [4]
     initial_state =
   attempts_loop (verdict_router ''%FALSE%'') ''gemini25pro'' ''gemini25flash'' france True []
     (snd (attempt_body (verdict_router ''%FALSE%'') ''gemini25pro'' ''gemini25flash'' france True
        initial_state))"
proof -
  let ?c = "\<lparr>req_model = ''gemini25pro'', req_prompt = france,
             outcome = Inr \<lparr>response = ''Paris'', model_used = ''gemini25pro'',
                             finish_reason = ''stop'', cost = Some (1 / 100)\<rparr>\<rparr>"
  let ?vr = "\<lparr>response = ''%FALSE%'', model_used = ''gemini25flash'',
               finish_reason = ''stop'', cost = Some (1 / 100)\<rparr>"
  let ?c4 = "\<lparr>req_model = ''gemini25flash'',
              req_prompt = validation_prompt france [''Paris'', ''Paris'', ''Paris''],
              outcome = Inr ?vr\<rparr>"
  let ?st' = "\<lparr>history = [?c, ?c, ?c, ?c4], total_cost = 1 / 25\<rparr>"
  have a: "attempt_body (verdict_router ''%FALSE%'') ''gemini25pro'' ''gemini25flash'' france True
             initial_state = (Rejected, ?st')"
    by (simp add: attempt_body_def communicate_with_ai_def verdict_router_def
        numeral_3_eq_3 Let_def track_cost_def card_insert_if strip_def isspace_def sentinel_def
        initial_state_def)
  have h: "history ?st' = history initial_state @ [?c, ?c, ?c, ?c4]"
    by (simp add: initial_state_def)
  have o: "outcome ?c4 = Inr ?vr" by simp
  from rejection_iff_stripped_sentinel[OF a h o, of 4 "[]"] a show ?thesis
    by simp
qed

text \<open>
  C3, as the claim states it, fails: when the budget model answers \<open>Paris\<close> followed by
  a newline, the returned text is \<open>Paris\<close>, not the verification response itself.
\<close>

theorem validated_result_not_verbatim_counterexample:
  "ai_call_checked demo_config (verdict_router (''Paris'' @ [CHR 0x0A])) ''Gemini'' france True =
     Inr \<lparr>response = ''Paris'', model_used = ''gemini25pro (validated by gemini25flash)'',
          finish_reason = ''validated'', cost = Some (1 / 25), prompt = france, attempts = 1\<rparr> \<and>
   outcome (last (history (snd (ai_call_checked_run demo_config
       (verdict_router (''Paris'' @ [CHR 0x0A])) ''Gemini'' france True)))) =
     Inr \<lparr>response = ''Paris'' @ [CHR 0x0A], model_used = ''gemini25flash'',
          finish_reason = ''stop'', cost = Some (1 / 100)\<rparr> \<and>
   ''Paris'' \<noteq> ''Paris'' @ [CHR 0x0A]"
  by (simp add: run_defs demo_config_def verdict_router_def)

text \<open>
  C3, amended. When attempt number \<open>k + 1\<close> is the first that validates, the call returns
  a result whose response is the budget model's verification response with leading and
  trailing whitespace removed, whose status is \<open>validated\<close>, whose \<open>attempts\<close> is
  \<open>k + 1\<close>, and whose cost, when the cost was asked for, is the total over all calls made.
\<close>

theorem validated_result_is_stripped_verification:
  assumes "vndr \<in> set allowed_vendors"
    and "find_models cfg vndr (None, None) = (Some hm, Some bm)" and "hm \<noteq> []" and "bm \<noteq> []"
    and "k < 5"
    and "\<forall>j. j < k \<longrightarrow> \<not> is_validated (outcome_of R hm bm prmpt cfp j)"
    and "is_validated (outcome_of R hm bm prmpt cfp k)"
  shows "\<exists>r vr.
     ai_call_checked cfg R vndr prmpt cfp = Inr r \<and>
     req_model (last (history (snd (ai_call_checked_run cfg R vndr prmpt cfp)))) = bm \<and>
     outcome (last (history (snd (ai_call_checked_run cfg R vndr prmpt cfp)))) = Inr vr \<and>
     response r = strip (response vr) \<and>
     finish_reason r = ''validated'' \<and>
     attempts r = k + 1 \<and>
     cost r = (if cfp then Some (sum_list (map contribution
                 (history (snd (ai_call_checked_run cfg R vndr prmpt cfp))))) else None)"
proof -
  from assms(7) obtain v where v: "outcome_of R hm bm prmpt cfp k = Validated v"
    by (cases "outcome_of R hm bm prmpt cfp k") auto
  let ?st = "state_before R hm bm prmpt cfp (Suc k)"
  from assms(6) have "\<forall>j. 0 \<le> j \<and> j < k \<longrightarrow> \<not> is_validated (outcome_of R hm bm prmpt cfp j)" by simp
  from loop_skip[OF _ assms(5) this] loop_step[OF assms(5), of R hm bm prmpt cfp] v
  have "attempts_loop R hm bm prmpt cfp [0..<5] (state_before R hm bm prmpt cfp 0) =
          (Return (validated_result hm bm prmpt cfp v k ?st), ?st)"
    by (simp del: state_before.simps)
  with run_resolved[OF assms(1-4), of R prmpt cfp]
  have run: "ai_call_checked_run cfg R vndr prmpt cfp =
               (Inr (validated_result hm bm prmpt cfp v k ?st), ?st)"
    by (simp add: finish_loop_def del: state_before.simps)
  from attempt_at[of R hm bm prmpt cfp k] v
  have "attempt_body R hm bm prmpt cfp (state_before R hm bm prmpt cfp k) = (Validated v, ?st)"
    by simp
  from attempt_verified[OF this, of v] obtain vr where
    "req_model (last (history ?st)) = bm" "outcome (last (history ?st)) = Inr vr"
    "v = strip (response vr)"
    by auto
  moreover from state_before_tracked[of R hm bm prmpt cfp "Suc k"]
  have "total_cost ?st = (if cfp then sum_list (map contribution (history ?st)) else 0)"
    by blast
  ultimately have "ai_call_checked cfg R vndr prmpt cfp = Inr (validated_result hm bm prmpt cfp v k ?st) \<and>
     req_model (last (history (snd (ai_call_checked_run cfg R vndr prmpt cfp)))) = bm \<and>
     outcome (last (history (snd (ai_call_checked_run cfg R vndr prmpt cfp)))) = Inr vr \<and>
     response (validated_result hm bm prmpt cfp v k ?st) = strip (response vr) \<and>
     finish_reason (validated_result hm bm prmpt cfp v k ?st) = ''validated'' \<and>
     attempts (validated_result hm bm prmpt cfp v k ?st) = k + 1 \<and>
     cost (validated_result hm bm prmpt cfp v k ?st) = (if cfp then Some (sum_list (map contribution
                 (history (snd (ai_call_checked_run cfg R vndr prmpt cfp))))) else None)"
    unfolding ai_call_checked_def run
    by (cases cfp) (simp_all add: validated_result_def del: state_before.simps)
  then show ?thesis by blast
qed

theorem validated_result_is_stripped_verification_witness:
  "\<exists>r vr.
     ai_call_checked demo_config flaky_router ''Gemini'' france True = Inr r \<and>
     req_model (last (history (snd (ai_call_checked_run demo_config flaky_router ''Gemini'' france
        True)))) = ''gemini25flash'' \<and>
     outcome (last (history (snd (ai_call_checked_run demo_config flaky_router ''Gemini'' france
        True)))) = Inr vr \<and>
     response r = strip (response vr) \<and>
     finish_reason r = ''validated'' \<and>
     attempts r = 1 + 1 \<and>
     cost r = (if True then Some (sum_list (map contribution
                 (history (snd (ai_call_checked_run demo_config flaky_router ''Gemini'' france
                    True))))) else None)"
proof -
  have n: "''gemini25pro'' \<noteq> []" "''gemini25flash'' \<noteq> []" by simp_all
  have k: "(1::nat) < 5" by simp
  have e: "\<forall>j. j < 1 \<longrightarrow>
     \<not> is_validated (outcome_of flaky_router ''gemini25pro'' ''gemini25flash'' france True j)"
    by (simp add: flaky_outcomes)
  have v: "is_validated (outcome_of flaky_router ''gemini25pro'' ''gemini25flash'' france True 1)"
    using flaky_outcomes(2)[of france] by simp
  from validated_result_is_stripped_verification[OF gemini_allowed demo_models n k e v]
  show ?thesis .
qed



text \<open>
  C5, as the claim states it, fails: with two high models for one vendor in the registry,
  the loop over the registry keeps the one it sees last, not the first.
\<close>

theorem first_model_counterexample:
  "fst (find_models two_high_config ''Gemini'' (None, None)) = Some ''gemini25pro'' \<and>
   first_model_with two_high_config ''Gemini'' ''high'' = Some ''gemini15pro'' \<and>
   model_used (projr (ai_call_checked two_high_config (verdict_router ''Paris'') ''Gemini'' france True))
     = ''gemini25pro (validated by gemini25flash)''"
  by (simp add: run_defs two_high_config_def first_model_with_def verdict_router_def)

text \<open>
  C5, amended. The high and the budget model are the last models of the registry with the
  vendor and the role. For an allowed vendor without a high model the call fails with the
  missing-high-model error, and without a budget model with one of the two missing-model
  errors, in both cases with no call made and a total cost of 0.
\<close>

theorem models_resolved_last_and_missing_role_fails_fast:
  "find_models cfg vndr (None, None) =
     (last_model_with cfg vndr ''high'', last_model_with cfg vndr ''budget'') \<and>
   (vndr \<in> set allowed_vendors \<longrightarrow> last_model_with cfg vndr ''high'' = None \<longrightarrow>
      ai_call_checked_run cfg R vndr prmpt cfp =
        (Inl (ValueError (no_high_msg vndr)), \<lparr>history = [], total_cost = 0\<rparr>)) \<and>
   (vndr \<in> set allowed_vendors \<longrightarrow> last_model_with cfg vndr ''budget'' = None \<longrightarrow>
      ai_call_checked_run cfg R vndr prmpt cfp =
        (Inl (ValueError (no_high_msg vndr)), \<lparr>history = [], total_cost = 0\<rparr>) \<or>
      ai_call_checked_run cfg R vndr prmpt cfp =
        (Inl (ValueError (no_budget_msg vndr)), \<lparr>history = [], total_cost = 0\<rparr>))"
proof -
  have l: "find_models cfg vndr (None, None) =
     (last_model_with cfg vndr ''high'', last_model_with cfg vndr ''budget'')"
    by (simp add: find_models_last split: option.splits)
  show ?thesis unfolding l
    by (auto simp: ai_call_checked_run_def l no_model_def initial_state_def split: option.splits)
qed

theorem models_resolved_last_and_missing_role_fails_fast_witness:
  "ai_call_checked_run demo_config (verdict_router ''Paris'') ''Anthropic'' france True =
     (Inl (ValueError (no_high_msg ''Anthropic'')), \<lparr>history = [], total_cost = 0\<rparr>) \<and>
   (ai_call_checked_run demo_config (verdict_router ''Paris'') ''OpenAI'' france True =
      (Inl (ValueError (no_high_msg ''OpenAI'')), \<lparr>history = [], total_cost = 0\<rparr>) \<or>
    ai_call_checked_run demo_config (verdict_router ''Paris'') ''OpenAI'' france True =
      (Inl (ValueError (no_budget_msg ''OpenAI'')), \<lparr>history = [], total_cost = 0\<rparr>))"
proof -
  have a: "''Anthropic'' \<in> set allowed_vendors" "''OpenAI'' \<in> set allowed_vendors"
    by (simp_all add: allowed_vendors_def)
  have h: "last_model_with demo_config ''Anthropic'' ''high'' = None"
    by (simp add: last_model_with_def first_model_with_def demo_config_def)
  have b: "last_model_with demo_config ''OpenAI'' ''budget'' = None"
    by (simp add: last_model_with_def first_model_with_def demo_config_def)
  from models_resolved_last_and_missing_role_fails_fast[of demo_config "''Anthropic''"
      "verdict_router ''Paris''" france True] a(1) h
  have x: "ai_call_checked_run demo_config (verdict_router ''Paris'') ''Anthropic'' france True =
     (Inl (ValueError (no_high_msg ''Anthropic'')), \<lparr>history = [], total_cost = 0\<rparr>)"
    by blast
  from models_resolved_last_and_missing_role_fails_fast[of demo_config "''OpenAI''"
      "verdict_router ''Paris''" france True] a(2) b
  have y: "ai_call_checked_run demo_config (verdict_router ''Paris'') ''OpenAI'' france True =
      (Inl (ValueError (no_high_msg ''OpenAI'')), \<lparr>history = [], total_cost = 0\<rparr>) \<or>
    ai_call_checked_run demo_config (verdict_router ''Paris'') ''OpenAI'' france True =
      (Inl (ValueError (no_budget_msg ''OpenAI'')), \<lparr>history = [], total_cost = 0\<rparr>)"
    by blast
  from x y show ?thesis by (rule conjI)
qed

text \<open>
  C6. The call makes at most 20 router calls. Every result it returns has \<open>attempts\<close>
  between 1 and 5, and \<open>attempts = 5\<close> when the status is \<open>validation_failed\<close>.
\<close>

theorem attempts_bounded:
  "length (history (snd (ai_call_checked_run cfg R vndr prmpt cfp))) \<le> 20 \<and>
   (\<forall>r. ai_call_checked cfg R vndr prmpt cfp = Inr r \<longrightarrow>
      1 \<le> attempts r \<and> attempts r \<le> 5 \<and>
      (finish_reason r = ''validation_failed'' \<longrightarrow> attempts r = 5))"
proof
  from run_state[of cfg R vndr prmpt cfp]
  show "length (history (snd (ai_call_checked_run cfg R vndr prmpt cfp))) \<le> 20"
  proof
    assume "snd (ai_call_checked_run cfg R vndr prmpt cfp) = initial_state"
    then show ?thesis by (simp add: initial_state_def)
  next
    assume "\<exists>hm bm k. k \<le> 5 \<and>
       snd (ai_call_checked_run cfg R vndr prmpt cfp) = state_before R hm bm prmpt cfp k"
    then obtain hm bm k where k: "k \<le> 5"
      "snd (ai_call_checked_run cfg R vndr prmpt cfp) = state_before R hm bm prmpt cfp k" by blast
    from state_before_tracked[of R hm bm prmpt cfp k]
    have "length (history (state_before R hm bm prmpt cfp k)) \<le> 4 * k" by simp
    with k show ?thesis by simp
  qed
next
  show "\<forall>r. ai_call_checked cfg R vndr prmpt cfp = Inr r \<longrightarrow>
      1 \<le> attempts r \<and> attempts r \<le> 5 \<and>
      (finish_reason r = ''validation_failed'' \<longrightarrow> attempts r = 5)"
  proof (intro allI impI)
    fix r assume a: "ai_call_checked cfg R vndr prmpt cfp = Inr r"
    obtain st where run: "ai_call_checked_run cfg R vndr prmpt cfp = (Inr r, st)"
      using a by (cases "ai_call_checked_run cfg R vndr prmpt cfp") (simp add: ai_call_checked_def)
    from run_Inr[OF run] show "1 \<le> attempts r \<and> attempts r \<le> 5 \<and>
      (finish_reason r = ''validation_failed'' \<longrightarrow> attempts r = 5)"
      by (auto simp: validated_result_def failed_result_def)
  qed
qed

theorem attempts_bounded_witness:
  "length (history (snd (ai_call_checked_run demo_config (verdict_router ''%FALSE%'') ''Gemini''
     france True))) \<le> 20 \<and>
   1 \<le> attempts \<lparr>response = ''ERROR: Failed to get validated response after 5 attempts for vendor: Gemini'',
          model_used = ''gemini25pro (validation failed)'',
          finish_reason = ''validation_failed'', cost = Some (1 / 5), prompt = france, attempts = 5\<rparr> \<and>
   attempts \<lparr>response = ''ERROR: Failed to get validated response after 5 attempts for vendor: Gemini'',
          model_used = ''gemini25pro (validation failed)'',
          finish_reason = ''validation_failed'', cost = Some (1 / 5), prompt = france, attempts = 5\<rparr> = 5"
  using attempts_bounded[of demo_config "verdict_router ''%FALSE%''" "''Gemini''" france True] reject_run
  by simp






end
